theory Spec2Isabelle
  imports Complex_Main
begin

section \<open>Numbers of the source language\<close>

text \<open>
  The planner is TypeScript; every quantity is a JavaScript number. The model keeps the
  arithmetic exact: a finite number is a \<open>real\<close>, and rounding to binary floating point,
  overflow and the sign of zero are not modelled. The three non-finite values that the
  source can meet without any rounding are kept as constructors: \<open>NaN\<close> (text that is not
  a number), and the two infinities (the literal text \<open>Infinity\<close>, and a division of a
  non-zero number by zero).

  Every statement about computed values is therefore a statement about the formulas of the
  source in exact arithmetic. It describes a run of the code whenever no operation of that
  run rounds or overflows; the inputs of the counterexamples below are of that kind. On
  other runs double precision can depart from the formulas in two ways that matter for
  signs and order:
  \<^item> rounding: for a monthly rate \<open>rm\<close> of size below \<open>2 ^ (- 53)\<close> the sum \<open>1 + rm\<close> is
    \<open>1\<close>, so \<open>Math.pow(1 + rm, months) - 1\<close> is \<open>0\<close> where the exact value is not;
  \<^item> overflow: a power beyond the largest double is \<open>Infinity\<close>, and \<open>0 * Infinity\<close> and
    \<open>Infinity - Infinity\<close> are \<open>NaN\<close>.
  Moreover the language standard leaves the rounding of \<open>Math.pow\<close> to the implementation,
  so the rounded values are not fixed by the source. Statements of sign and order are made
  for exact arithmetic and say so.
\<close>

datatype jsnum = NaN | PInf | NInf | Fin real

text \<open>\<open>a || b\<close> on numbers: \<open>NaN\<close> and \<open>0\<close> are the falsy numbers.\<close>

definition js_truthy :: "jsnum \<Rightarrow> bool" where
  "js_truthy a = (a \<noteq> NaN \<and> a \<noteq> Fin 0)"

definition js_or :: "jsnum \<Rightarrow> jsnum \<Rightarrow> jsnum" where
  "js_or a b = (if js_truthy a then a else b)"

text \<open>\<open>a + b\<close>, \<open>- a\<close>, \<open>a - b\<close>, \<open>a * b\<close>, \<open>a / b\<close>, \<open>a <= b\<close>, \<open>Math.max\<close>,
  \<open>Math.min\<close> and \<open>Math.round\<close> (which rounds a half upwards, as \<open>round\<close> does).\<close>

fun js_add :: "jsnum \<Rightarrow> jsnum \<Rightarrow> jsnum" where
  "js_add NaN _ = NaN"
| "js_add _ NaN = NaN"
| "js_add PInf NInf = NaN"
| "js_add NInf PInf = NaN"
| "js_add PInf _ = PInf"
| "js_add _ PInf = PInf"
| "js_add NInf _ = NInf"
| "js_add _ NInf = NInf"
| "js_add (Fin x) (Fin y) = Fin (x + y)"

fun js_neg :: "jsnum \<Rightarrow> jsnum" where
  "js_neg NaN = NaN"
| "js_neg PInf = NInf"
| "js_neg NInf = PInf"
| "js_neg (Fin x) = Fin (- x)"

definition js_sub :: "jsnum \<Rightarrow> jsnum \<Rightarrow> jsnum" where
  "js_sub a b = js_add a (js_neg b)"

definition js_sign :: "jsnum \<Rightarrow> real" where
  "js_sign a = (case a of NaN \<Rightarrow> 0 | PInf \<Rightarrow> 1 | NInf \<Rightarrow> - 1 | Fin x \<Rightarrow> sgn x)"

definition js_of_sign :: "real \<Rightarrow> jsnum" where
  "js_of_sign s = (if 0 < s then PInf else if s < 0 then NInf else NaN)"

fun js_mul :: "jsnum \<Rightarrow> jsnum \<Rightarrow> jsnum" where
  "js_mul NaN _ = NaN"
| "js_mul _ NaN = NaN"
| "js_mul (Fin x) (Fin y) = Fin (x * y)"
| "js_mul a b = js_of_sign (js_sign a * js_sign b)"

text \<open>Division. HOL's \<open>x / 0\<close> is \<open>0\<close>; the source language gives an infinity with
  the sign of the numerator, and \<open>NaN\<close> for \<open>0 / 0\<close> (a zero is taken as positive).\<close>

fun js_div :: "jsnum \<Rightarrow> jsnum \<Rightarrow> jsnum" where
  "js_div NaN _ = NaN"
| "js_div _ NaN = NaN"
| "js_div (Fin x) (Fin y) = (if y = 0 then js_of_sign x else Fin (x / y))"
| "js_div (Fin x) _ = Fin 0"
| "js_div a (Fin y) = js_of_sign (js_sign a * (if 0 \<le> y then 1 else - 1))"
| "js_div a b = NaN"

fun js_le :: "jsnum \<Rightarrow> jsnum \<Rightarrow> bool" where
  "js_le NaN _ = False"
| "js_le _ NaN = False"
| "js_le NInf _ = True"
| "js_le _ PInf = True"
| "js_le PInf _ = False"
| "js_le _ NInf = False"
| "js_le (Fin x) (Fin y) = (x \<le> y)"

fun js_max :: "jsnum \<Rightarrow> jsnum \<Rightarrow> jsnum" where
  "js_max NaN _ = NaN"
| "js_max _ NaN = NaN"
| "js_max a b = (if js_le a b then b else a)"

fun js_min :: "jsnum \<Rightarrow> jsnum \<Rightarrow> jsnum" where
  "js_min NaN _ = NaN"
| "js_min _ NaN = NaN"
| "js_min a b = (if js_le a b then a else b)"

fun js_round :: "jsnum \<Rightarrow> jsnum" where
  "js_round (Fin x) = Fin (of_int (round x))"
| "js_round a = a"

section \<open>\<open>Number(text)\<close>\<close>

text \<open>
  \<open>Number\<close> applied to a string follows the language's StringToNumber grammar: white
  space is trimmed on both sides; the empty string is \<open>0\<close>; an optional sign may precede
  \<open>Infinity\<close> or a decimal literal (digits, an optional fraction, an optional exponent);
  an unsigned \<open>0x\<close>, \<open>0o\<close> or \<open>0b\<close> literal is read in its base; anything else is
  \<open>NaN\<close>. Strings are modelled over 8-bit characters.
\<close>

definition is_ws :: "char \<Rightarrow> bool" where
  "is_ws c = ((of_char c :: nat) \<in> {9, 10, 11, 12, 13, 32, 160})"

definition trim :: "string \<Rightarrow> string" where
  "trim s = rev (dropWhile is_ws (rev (dropWhile is_ws s)))"

definition is_digit :: "char \<Rightarrow> bool" where
  "is_digit c = (48 \<le> (of_char c :: nat) \<and> (of_char c :: nat) \<le> 57)"

text \<open>The value of a digit in a base up to 16; \<open>None\<close> when the character is not one.\<close>

definition digit_of :: "nat \<Rightarrow> char \<Rightarrow> nat option" where
  "digit_of base c =
     (let k = (of_char c :: nat);
          v = (if 48 \<le> k \<and> k \<le> 57 then Some (k - 48)
               else if 97 \<le> k \<and> k \<le> 102 then Some (k - 87)
               else if 65 \<le> k \<and> k \<le> 70 then Some (k - 55)
               else None)
      in case v of None \<Rightarrow> None | Some d \<Rightarrow> if d < base then Some d else None)"

fun digits_from :: "nat \<Rightarrow> nat \<Rightarrow> string \<Rightarrow> nat option" where
  "digits_from base acc [] = Some acc"
| "digits_from base acc (c # cs) =
     (case digit_of base c of
        None \<Rightarrow> None
      | Some d \<Rightarrow> digits_from base (base * acc + d) cs)"

text \<open>A non-empty run of digits of the base, as a number.\<close>

definition digits_val :: "nat \<Rightarrow> string \<Rightarrow> nat option" where
  "digits_val base s = (if s = [] then None else digits_from base 0 s)"

text \<open>The exponent part after \<open>e\<close> or \<open>E\<close>: an optional sign and at least one digit.\<close>

definition signed_integer :: "string \<Rightarrow> int option" where
  "signed_integer s =
     (case s of
        [] \<Rightarrow> None
      | c # cs \<Rightarrow>
          if c = CHR ''+'' then map_option int (digits_val 10 cs)
          else if c = CHR ''-'' then map_option (\<lambda>n. - int n) (digits_val 10 cs)
          else map_option int (digits_val 10 s))"

definition exponent_part :: "string \<Rightarrow> int option" where
  "exponent_part s =
     (case s of
        [] \<Rightarrow> Some 0
      | c # cs \<Rightarrow> if c = CHR ''e'' \<or> c = CHR ''E'' then signed_integer cs else None)"

definition pow10 :: "int \<Rightarrow> real" where
  "pow10 e = (if 0 \<le> e then 10 ^ nat e else 1 / 10 ^ nat (- e))"

text \<open>An unsigned decimal literal: \<open>digits [. [digits]] [exponent]\<close> or
  \<open>. digits [exponent]\<close>.\<close>

definition unsigned_decimal :: "string \<Rightarrow> real option" where
  "unsigned_decimal s =
     (let ip = takeWhile is_digit s;
          r1 = dropWhile is_digit s;
          dot = (r1 \<noteq> [] \<and> hd r1 = CHR ''.'');
          fp = (if dot then takeWhile is_digit (tl r1) else []);
          r2 = (if dot then dropWhile is_digit (tl r1) else r1)
      in if ip = [] \<and> fp = [] then None
         else case exponent_part r2 of
                None \<Rightarrow> None
              | Some e \<Rightarrow>
                  (case (digits_from 10 0 ip, digits_from 10 0 fp) of
                     (Some i, Some f) \<Rightarrow>
                        Some ((real i + real f / 10 ^ length fp) * pow10 e)
                   | _ \<Rightarrow> None))"

definition str_unsigned :: "string \<Rightarrow> jsnum" where
  "str_unsigned s =
     (if s = ''Infinity'' then PInf
      else case unsigned_decimal s of None \<Rightarrow> NaN | Some x \<Rightarrow> Fin x)"

definition non_decimal :: "string \<Rightarrow> jsnum option" where
  "non_decimal s =
     (case s of
        z # p # ds \<Rightarrow>
          if z \<noteq> CHR ''0'' then None
          else
            (let base = (if p = CHR ''x'' \<or> p = CHR ''X'' then Some 16
                         else if p = CHR ''o'' \<or> p = CHR ''O'' then Some 8
                         else if p = CHR ''b'' \<or> p = CHR ''B'' then Some (2::nat)
                         else None)
             in case base of
                  None \<Rightarrow> None
                | Some b \<Rightarrow>
                    Some (case digits_val b ds of None \<Rightarrow> NaN | Some n \<Rightarrow> Fin (real n)))
      | _ \<Rightarrow> None)"

definition Number_js :: "string \<Rightarrow> jsnum" where
  "Number_js text =
     (let s = trim text
      in if s = [] then Fin 0
         else case non_decimal s of
                Some v \<Rightarrow> v
              | None \<Rightarrow>
                  if hd s = CHR ''+'' then str_unsigned (tl s)
                  else if hd s = CHR ''-'' then js_neg (str_unsigned (tl s))
                  else str_unsigned s)"

section \<open>Data model\<close>

text \<open>The form keeps every field of a goal as free text (type \<open>Inputs\<close> of the source).\<close>

record Inputs =
  goalName :: string
  goalType :: string
  targetAmount :: string
  years :: string
  currentSavings :: string
  monthlyContribution :: string
  annualReturn :: string
  inflationRate :: string
  monthsInvested :: string
  priority :: string

text \<open>A sampled point of the growth trajectory; the field \<open>value\<close> of the source is
  \<open>pvalue\<close> here.\<close>

record ProjectionPoint =
  month :: nat
  yearLabel :: string
  pvalue :: real

text \<open>
  The pair \<open>{emoji, label}\<close> returned by \<open>getHealthScore\<close>, one constructor per pair,
  in the order of the source: "Set a goal first", "Very weak", "Needs work",
  "Almost there", "On track", "Overachiever".
\<close>

datatype HealthScore =
  SetGoalFirst | VeryWeak | NeedsWork | AlmostThere | OnTrack | Overachiever

text \<open>
  \<open>monthlyRequired\<close> has the source type \<open>number | null\<close>. It is the one field whose
  computation divides by a quantity that can be zero for finite inputs, so it is kept as
  a \<open>jsnum\<close>; the other numeric fields are finite whenever the inputs are.
\<close>

record Results =
  fvLump :: real
  fvSip :: real
  fvTotal :: real
  gap :: real
  monthlyRequired :: "jsnum option"
  projection :: "ProjectionPoint list"
  health :: HealthScore
  coverage :: real
  effectiveTarget :: real

record Goal =
  goal_id :: nat
  inputs :: Inputs
  results :: "Results option"

section \<open>The health score\<close>

definition getHealthScore :: "real \<Rightarrow> real \<Rightarrow> HealthScore" where
  "getHealthScore fvTotal' effectiveTarget' =
     (if effectiveTarget' \<le> 0 then SetGoalFirst
      else
        (let coverage' = fvTotal' / effectiveTarget'
         in if coverage' < 0.5 then VeryWeak
            else if coverage' < 0.8 then NeedsWork
            else if coverage' < 1.0 then AlmostThere
            else if coverage' < 1.3 then OnTrack
            else Overachiever))"

section \<open>Normalization of the text fields\<close>

text \<open>\<open>Number(inputs.f)\<close> for the six fields that \<open>computeResults\<close> reads.\<close>

record Parsed =
  p_targetAmount :: jsnum
  p_years :: jsnum
  p_inflationRate :: jsnum
  p_currentSavings :: jsnum
  p_monthlyContribution :: jsnum
  p_annualReturn :: jsnum

definition parseInputs :: "Inputs \<Rightarrow> Parsed" where
  "parseInputs i =
     \<lparr> p_targetAmount = Number_js (targetAmount i),
       p_years = Number_js (years i),
       p_inflationRate = Number_js (inflationRate i),
       p_currentSavings = Number_js (currentSavings i),
       p_monthlyContribution = Number_js (monthlyContribution i),
       p_annualReturn = Number_js (annualReturn i) \<rparr>"

text \<open>The idiom \<open>Number(text) || 0\<close> of the source, on one field.\<close>

definition normField :: "string \<Rightarrow> jsnum" where
  "normField text = js_or (Number_js text) (Fin 0)"

text \<open>The locals \<open>baseTarget\<close>, \<open>years\<close>, \<open>inflation\<close>, \<open>currentSavings\<close>,
  \<open>monthlyContribution\<close> and \<open>annualReturn\<close> of \<open>computeResults\<close>, when all six are
  finite.\<close>

record Normalized =
  baseTarget :: real
  n_years :: real
  inflation :: real
  n_currentSavings :: real
  n_monthlyContribution :: real
  n_annualReturn :: real

fun is_fin :: "jsnum \<Rightarrow> bool" where
  "is_fin (Fin x) = True"
| "is_fin _ = False"

fun the_fin :: "jsnum \<Rightarrow> real" where
  "the_fin (Fin x) = x"
| "the_fin _ = 0"

text \<open>
  The six lines \<open>const x = Number(inputs.f) || 0\<close>. The result is \<open>None\<close> when one of
  the six values is an infinity: the source then goes on with infinities and \<open>NaN\<close>
  (and, for infinite \<open>years\<close>, its loop does not end), which the exact arithmetic below
  does not cover.
\<close>

definition normalizeParsed :: "Parsed \<Rightarrow> Normalized option" where
  "normalizeParsed p =
     (let t = js_or (p_targetAmount p) (Fin 0);
          y = js_or (p_years p) (Fin 0);
          i = js_or (p_inflationRate p) (Fin 0);
          c = js_or (p_currentSavings p) (Fin 0);
          m = js_or (p_monthlyContribution p) (Fin 0);
          a = js_or (p_annualReturn p) (Fin 0)
      in if is_fin t \<and> is_fin y \<and> is_fin i \<and> is_fin c \<and> is_fin m \<and> is_fin a
         then Some \<lparr> baseTarget = the_fin t, n_years = the_fin y, inflation = the_fin i,
                     n_currentSavings = the_fin c, n_monthlyContribution = the_fin m,
                     n_annualReturn = the_fin a \<rparr>
         else None)"

section \<open>The projection calculator\<close>

text \<open>Decimal digits of a natural number, for \<open>toFixed\<close> and template strings.\<close>

definition digit_char :: "nat \<Rightarrow> char" where
  "digit_char d = ''0123456789'' ! d"

fun show_nat :: "nat \<Rightarrow> string" where
  "show_nat n =
     (if n < 10 then [digit_char n]
      else show_nat (n div 10) @ [digit_char (n mod 10)])"

declare show_nat.simps [simp del]

text \<open>
  The label \<open>`${(m / 12).toFixed(1)}y`\<close>: \<open>m / 12\<close> to one decimal, a tie rounded
  upwards; \<open>(10 * m + 6) div 12\<close> is that number of tenths.
\<close>

definition year_label :: "nat \<Rightarrow> string" where
  "year_label m =
     (let tenths = (10 * m + 6) div 12
      in show_nat (tenths div 10) @ ''.'' @ show_nat (tenths mod 10) @ ''y'')"

text \<open>
  The loop \<open>for (let m = 1; m <= months; m++)\<close>: \<open>v\<close> is the running \<open>value\<close>,
  \<open>acc\<close> the array \<open>projection\<close> built so far.
\<close>

function projection_loop ::
  "real \<Rightarrow> real \<Rightarrow> real \<Rightarrow> nat \<Rightarrow> nat \<Rightarrow> real \<Rightarrow> ProjectionPoint list \<Rightarrow> ProjectionPoint list"
where
  "projection_loop r rm contribution months m v acc =
     (if m \<le> months then
        (let v' = (if r = 0 then v + contribution else v * (1 + rm) + contribution);
             acc' = (if m = 1 \<or> m mod 6 = 0 \<or> m = months
                     then acc @ [\<lparr> month = m, yearLabel = year_label m, pvalue = v' \<rparr>]
                     else acc)
         in projection_loop r rm contribution months (m + 1) v' acc')
      else acc)"
  by pat_completeness auto
termination
  by (relation "measure (\<lambda>(r, rm, contribution, months, m, v, acc). Suc months - m)") auto

declare projection_loop.simps [simp del]

definition months_of :: "real \<Rightarrow> nat" where
  "months_of years' = nat (max 1 (round (years' * 12)))"

text \<open>
  The body of \<open>computeResults\<close> after the six normalized locals are known.
  \<open>Math.pow(1 + inflation / 100, years)\<close> is taken only for a base above \<open>1\<close> and a
  positive exponent, where it is \<open>powr\<close>; \<open>Math.pow(1 + rm, months)\<close> has a whole
  exponent of at least \<open>1\<close> and is \<open>^\<close>. Every operation is the exact one: the
  result is that of the code on the runs in which nothing rounds or overflows.
\<close>

definition computeNormalized :: "Normalized \<Rightarrow> Results" where
  "computeNormalized n =
     (let inflationFactor =
            (if n_years n > 0 \<and> inflation n > 0
             then (1 + inflation n / 100) powr n_years n else 1);
          effectiveTarget' = baseTarget n * inflationFactor;
          months = months_of (n_years n);
          r = n_annualReturn n / 100;
          rm = r / 12;
          fvLump' = (if r = 0 then n_currentSavings n
                     else n_currentSavings n * (1 + rm) ^ months);
          fvSip' = (if r = 0 then n_monthlyContribution n * real months
                    else n_monthlyContribution n * (((1 + rm) ^ months - 1) / rm));
          fvTotal' = fvLump' + fvSip';
          gap' = fvTotal' - effectiveTarget';
          needed = effectiveTarget' - fvLump';
          monthlyRequired' =
            (if needed \<le> 0 then Fin 0
             else if r = 0 then Fin (needed / real months)
             else (let denom = (1 + rm) ^ months - 1
                   in js_div (Fin (needed * rm)) (Fin denom)));
          projection' =
            projection_loop r rm (n_monthlyContribution n) months 1 (n_currentSavings n) [];
          health' = getHealthScore fvTotal' effectiveTarget';
          coverage' = (if effectiveTarget' > 0 then fvTotal' / effectiveTarget' else 0)
      in \<lparr> fvLump = fvLump', fvSip = fvSip', fvTotal = fvTotal', gap = gap',
           monthlyRequired = Some monthlyRequired', projection = projection',
           health = health', coverage = coverage', effectiveTarget = effectiveTarget' \<rparr>)"

definition computeParsed :: "Parsed \<Rightarrow> Results option" where
  "computeParsed p = map_option computeNormalized (normalizeParsed p)"

definition computeResults :: "Inputs \<Rightarrow> Results option" where
  "computeResults i = computeParsed (parseInputs i)"

section \<open>Portfolio totals and badge\<close>

text \<open>The four accumulators of the \<open>goals.forEach\<close> in the first \<open>useMemo\<close> of
  \<open>Planner\<close>.\<close>

record Totals =
  totalSip :: jsnum
  totalRequired :: jsnum
  coverageSum :: real
  coverageCount :: nat

definition tally :: "Totals \<Rightarrow> Goal \<Rightarrow> Totals" where
  "tally t g =
     (let sip = normField (monthlyContribution (inputs g));
          t1 = t\<lparr> totalSip := js_add (totalSip t) sip \<rparr>;
          t2 = (case results g of
                  None \<Rightarrow> t1
                | Some res \<Rightarrow>
                    (case monthlyRequired res of
                       None \<Rightarrow> t1
                     | Some q \<Rightarrow>
                         t1\<lparr> totalRequired := js_add (totalRequired t1) (js_max (Fin 0) q) \<rparr>))
      in case results g of
           None \<Rightarrow> t2
         | Some res \<Rightarrow>
             if coverage res > 0
             then t2\<lparr> coverageSum := coverageSum t2 + coverage res,
                      coverageCount := coverageCount t2 + 1 \<rparr>
             else t2)"

definition portfolioTotals :: "Goal list \<Rightarrow> Totals" where
  "portfolioTotals goals =
     foldl tally \<lparr> totalSip = Fin 0, totalRequired = Fin 0, coverageSum = 0,
                   coverageCount = 0 \<rparr> goals"

definition avgCoverage :: "Goal list \<Rightarrow> real" where
  "avgCoverage goals =
     (let t = portfolioTotals goals
      in if coverageCount t > 0 then coverageSum t / real (coverageCount t) else 0)"

text \<open>The labels "Getting started", "On track", "Overprepared", "Almost there" and
  "High risk of shortfall".\<close>

datatype Badge = GettingStarted | BadgeOnTrack | Overprepared | BadgeAlmostThere | HighRisk

definition badgeLabel :: "real \<Rightarrow> Badge" where
  "badgeLabel avg =
     (if avg \<ge> 1 \<and> avg < 1.2 then BadgeOnTrack
      else if avg \<ge> 1.2 then Overprepared
      else if avg \<ge> 0.7 then BadgeAlmostThere
      else if avg > 0 then HighRisk
      else GettingStarted)"

record Summary =
  totalCurrentSip :: jsnum
  totalRequiredSip :: jsnum
  badge :: Badge

definition portfolioSummary :: "Goal list \<Rightarrow> Summary" where
  "portfolioSummary goals =
     \<lparr> totalCurrentSip = totalSip (portfolioTotals goals),
       totalRequiredSip = totalRequired (portfolioTotals goals),
       badge = badgeLabel (avgCoverage goals) \<rparr>"

section \<open>Priority-weighted allocation\<close>

record Allocation =
  alloc_id :: nat
  alloc_name :: string
  suggestedSip :: jsnum

text \<open>\<open>Math.max(1, Math.min(5, Number(g.inputs.priority) || 1))\<close>.\<close>

definition normPriority :: "Goal \<Rightarrow> jsnum" where
  "normPriority g =
     (let p = js_or (Number_js (priority (inputs g))) (Fin 1)
      in js_max (Fin 1) (js_min (Fin 5) p))"

definition totalPriority :: "Goal list \<Rightarrow> jsnum" where
  "totalPriority goals = foldl (\<lambda>sum g. js_add sum (normPriority g)) (Fin 0) goals"

text \<open>The second \<open>useMemo\<close>; \<open>None\<close> is the \<open>null\<close> of the source, and the argument is
  the text of the income field.\<close>

definition recommendedAllocation :: "Goal list \<Rightarrow> string \<Rightarrow> Allocation list option" where
  "recommendedAllocation goals monthlyIncome =
     (let monthlyIncomeNum = js_or (Number_js monthlyIncome) (Fin 0)
      in if js_truthy monthlyIncomeNum then
           if js_le monthlyIncomeNum (Fin 0) then None
           else
             (let safeMax = js_mul monthlyIncomeNum (Fin 0.4)
              in if totalPriority goals = Fin 0 then None
                 else Some (map (\<lambda>g.
                        (let share = js_mul (js_div (normPriority g) (totalPriority goals)) safeMax
                         in \<lparr> alloc_id = goal_id g,
                              alloc_name = (if goalName (inputs g) \<noteq> [] then goalName (inputs g)
                                            else ''Goal '' @ show_nat (goal_id g)),
                              suggestedSip = js_round share \<rparr>)) goals))
         else None)"

section \<open>What-if scenarios\<close>

record Scenarios =
  scenarioPlus2Years :: "Results option"
  scenarioPlus2kSip :: "Results option"
  scenarioMinus2LTarget :: "Results option"

text \<open>
  The third \<open>useMemo\<close>. Each scenario copies the inputs of the active goal, replaces one
  field by the text (\<open>toString\<close>) of a number, and calls \<open>computeResults\<close>, which reads
  that text back with \<open>Number\<close>. Reading back the text of a number gives the number, so
  the model hands the number to \<open>computeParsed\<close> directly. The argument is the active
  goal, \<open>None\<close> when there is none.
\<close>

definition scenarioResults :: "Goal option \<Rightarrow> Scenarios option" where
  "scenarioResults activeGoal =
     (case activeGoal of
        None \<Rightarrow> None
      | Some g \<Rightarrow>
          (let base = parseInputs (inputs g)
           in Some
             \<lparr> scenarioPlus2Years =
                 computeParsed
                   (base\<lparr> p_years := js_or (js_add (p_years base) (Fin 2)) (Fin 2) \<rparr>),
               scenarioPlus2kSip =
                 computeParsed
                   (base\<lparr> p_monthlyContribution :=
                            js_add (js_or (p_monthlyContribution base) (Fin 0)) (Fin 2000) \<rparr>),
               scenarioMinus2LTarget =
                 computeParsed
                   (base\<lparr> p_targetAmount :=
                            js_max (Fin 0)
                              (js_sub (js_or (p_targetAmount base) (Fin 0)) (Fin 200000)) \<rparr>) \<rparr>))"

section \<open>Definitions used in the statements\<close>

subsection \<open>Functions read off the source\<close>

text \<open>The chain of comparisons of \<open>getHealthScore\<close>, as a function of the coverage.\<close>

definition tier_of :: "real \<Rightarrow> HealthScore" where
  "tier_of c =
     (if c < 0.5 then VeryWeak
      else if c < 0.8 then NeedsWork
      else if c < 1.0 then AlmostThere
      else if c < 1.3 then OnTrack
      else Overachiever)"

text \<open>One pass of the loop body of \<open>projection_loop\<close> on the running value.\<close>

definition grow :: "real \<Rightarrow> real \<Rightarrow> real \<Rightarrow> real \<Rightarrow> real" where
  "grow r rm contribution v =
     (if r = 0 then v + contribution else v * (1 + rm) + contribution)"



text \<open>The priority of a goal clamped into \<open>[1, 5]\<close>, as a function of what its text
  parses to.\<close>

definition clampedPriority :: "Goal \<Rightarrow> real" where
  "clampedPriority g =
     (case Number_js (priority (inputs g)) of
        NaN \<Rightarrow> 1
      | PInf \<Rightarrow> 5
      | NInf \<Rightarrow> 1
      | Fin x \<Rightarrow> max 1 (min 5 x))"

subsection \<open>The average coverage and the badge, in the words of the specification\<close>

text \<open>
  A goal qualifies when it has computed results whose coverage is positive; the average
  is the mean of the coverage over the qualifying goals; without a qualifying goal the
  badge is "getting started", and otherwise the tiers are \<open>(0, 0.7)\<close>, \<open>[0.7, 1.0)\<close>,
  \<open>[1.0, 1.2)\<close> and \<open>[1.2, \<infinity>)\<close>.
\<close>

definition qualifies :: "Goal \<Rightarrow> bool" where
  "qualifies g = (case results g of None \<Rightarrow> False | Some res \<Rightarrow> 0 < coverage res)"

definition goal_coverage :: "Goal \<Rightarrow> real" where
  "goal_coverage g = (case results g of None \<Rightarrow> 0 | Some res \<Rightarrow> coverage res)"

definition spec_avgCoverage :: "Goal list \<Rightarrow> real" where
  "spec_avgCoverage goals =
     (let qs = filter qualifies goals
      in if qs = [] then 0 else sum_list (map goal_coverage qs) / real (length qs))"

definition spec_badge :: "Goal list \<Rightarrow> Badge" where
  "spec_badge goals =
     (if filter qualifies goals = [] then GettingStarted
      else
        (let avg = spec_avgCoverage goals
         in if avg < 0.7 then HighRisk
            else if avg < 1.0 then BadgeAlmostThere
            else if avg < 1.2 then BadgeOnTrack
            else Overprepared))"

subsection \<open>Sample goals\<close>

text \<open>The goal a new planner starts with (\<open>initialInputs\<close> of the source).\<close>

definition initialInputs :: Inputs where
  "initialInputs =
     \<lparr> goalName = ''Master's abroad fund'', goalType = ''Education'',
       targetAmount = ''1500000'', years = ''5'', currentSavings = ''50000'',
       monthlyContribution = ''10000'', annualReturn = ''12'', inflationRate = ''5'',
       monthsInvested = ''0'', priority = ''3'' \<rparr>"

text \<open>A zero-return goal over one year, and a goal over a quarter of a year whose monthly
  rate is \<open>1\<close>, with its normalized locals.\<close>

definition zero_return_goal :: Inputs where
  "zero_return_goal =
     \<lparr> goalName = ''Laptop'', goalType = ''Gadget'', targetAmount = ''30000'', years = ''1'',
       currentSavings = ''10000'', monthlyContribution = ''1000'', annualReturn = ''0'',
       inflationRate = ''0'', monthsInvested = ''0'', priority = ''3'' \<rparr>"

definition quarter_goal :: Inputs where
  "quarter_goal =
     \<lparr> goalName = ''Bike'', goalType = ''Gadget'', targetAmount = ''7000'', years = ''0.25'',
       currentSavings = ''0'', monthlyContribution = ''0'', annualReturn = ''1200'',
       inflationRate = ''0'', monthsInvested = ''0'', priority = ''3'' \<rparr>"


text \<open>Two goals for the allocation: priorities \<open>3\<close> and \<open>9\<close>, the second without a name.\<close>

definition sample_goals :: "Goal list" where
  "sample_goals =
     [\<lparr> goal_id = 1, inputs = zero_return_goal, results = None \<rparr>,
      \<lparr> goal_id = 2, inputs = quarter_goal\<lparr> goalName := [], priority := ''9'' \<rparr>,
        results = None \<rparr>]"

text \<open>A goal whose horizon is \<open>- 2\<close> years, with no growth and no inflation.\<close>

definition negative_years_inputs :: Inputs where
  "negative_years_inputs =
     \<lparr> goalName = ''Scooter'', goalType = ''Vehicle'', targetAmount = ''1000'',
       years = ''-2'', currentSavings = ''0'', monthlyContribution = ''100'',
       annualReturn = ''0'', inflationRate = ''0'', monthsInvested = ''0'',
       priority = ''3'' \<rparr>"

section \<open>Basic facts\<close>

lemmas number_defs =
  Number_js_def trim_def is_ws_def non_decimal_def str_unsigned_def unsigned_decimal_def
  is_digit_def exponent_part_def signed_integer_def digits_val_def digit_of_def pow10_def

lemma computeResults_Some:
  "normalizeParsed (parseInputs i) = Some n \<Longrightarrow> computeResults i = Some (computeNormalized n)"
  by (simp add: computeResults_def computeParsed_def)

lemma months_of_pos: "1 \<le> months_of y"
  by (simp add: months_of_def)

lemma months_of_int: "int (months_of y) = max 1 (round (y * 12))"
  by (simp add: months_of_def)

lemma fvLump_computeNormalized:
  "fvLump (computeNormalized n) =
     (if n_annualReturn n = 0 then n_currentSavings n
      else n_currentSavings n * (1 + n_annualReturn n / 100 / 12) ^ months_of (n_years n))"
  by (simp add: computeNormalized_def Let_def)

lemma fvSip_computeNormalized:
  "fvSip (computeNormalized n) =
     (if n_annualReturn n = 0 then n_monthlyContribution n * real (months_of (n_years n))
      else n_monthlyContribution n *
           (((1 + n_annualReturn n / 100 / 12) ^ months_of (n_years n) - 1) /
            (n_annualReturn n / 100 / 12)))"
  by (simp add: computeNormalized_def Let_def)

lemma fvTotal_computeNormalized:
  "fvTotal (computeNormalized n) = fvLump (computeNormalized n) + fvSip (computeNormalized n)"
  by (simp add: computeNormalized_def Let_def)

lemma effectiveTarget_computeNormalized:
  "effectiveTarget (computeNormalized n) =
     baseTarget n *
     (if n_years n > 0 \<and> inflation n > 0 then (1 + inflation n / 100) powr n_years n else 1)"
  by (simp add: computeNormalized_def Let_def)


lemma is_fin_the_fin: "is_fin v \<Longrightarrow> v = Fin (the_fin v)"
  by (cases v) simp_all

lemma normalizeParsed_SomeD:
  assumes "normalizeParsed p = Some n"
  shows "js_or (p_targetAmount p) (Fin 0) = Fin (baseTarget n)"
    and "js_or (p_years p) (Fin 0) = Fin (n_years n)"
    and "js_or (p_inflationRate p) (Fin 0) = Fin (inflation n)"
    and "js_or (p_currentSavings p) (Fin 0) = Fin (n_currentSavings n)"
    and "js_or (p_monthlyContribution p) (Fin 0) = Fin (n_monthlyContribution n)"
    and "js_or (p_annualReturn p) (Fin 0) = Fin (n_annualReturn n)"
proof -
  let ?c = "is_fin (js_or (p_targetAmount p) (Fin 0)) \<and> is_fin (js_or (p_years p) (Fin 0))
     \<and> is_fin (js_or (p_inflationRate p) (Fin 0)) \<and> is_fin (js_or (p_currentSavings p) (Fin 0))
     \<and> is_fin (js_or (p_monthlyContribution p) (Fin 0))
     \<and> is_fin (js_or (p_annualReturn p) (Fin 0))"
  have c: ?c
  proof (rule ccontr)
    assume "\<not> ?c"
    then have "normalizeParsed p = None" by (simp only: normalizeParsed_def Let_def if_False)
    with assms show False by simp
  qed
  have "normalizeParsed p =
    Some \<lparr> baseTarget = the_fin (js_or (p_targetAmount p) (Fin 0)),
           n_years = the_fin (js_or (p_years p) (Fin 0)),
           inflation = the_fin (js_or (p_inflationRate p) (Fin 0)),
           n_currentSavings = the_fin (js_or (p_currentSavings p) (Fin 0)),
           n_monthlyContribution = the_fin (js_or (p_monthlyContribution p) (Fin 0)),
           n_annualReturn = the_fin (js_or (p_annualReturn p) (Fin 0)) \<rparr>"
    using c by (simp add: normalizeParsed_def Let_def)
  with assms have n: "n =
    \<lparr> baseTarget = the_fin (js_or (p_targetAmount p) (Fin 0)),
      n_years = the_fin (js_or (p_years p) (Fin 0)),
      inflation = the_fin (js_or (p_inflationRate p) (Fin 0)),
      n_currentSavings = the_fin (js_or (p_currentSavings p) (Fin 0)),
      n_monthlyContribution = the_fin (js_or (p_monthlyContribution p) (Fin 0)),
      n_annualReturn = the_fin (js_or (p_annualReturn p) (Fin 0)) \<rparr>"
    by simp
  show "js_or (p_targetAmount p) (Fin 0) = Fin (baseTarget n)"
    using c is_fin_the_fin [of "js_or (p_targetAmount p) (Fin 0)"] by (simp add: n)
  show "js_or (p_years p) (Fin 0) = Fin (n_years n)"
    using c is_fin_the_fin [of "js_or (p_years p) (Fin 0)"] by (simp add: n)
  show "js_or (p_inflationRate p) (Fin 0) = Fin (inflation n)"
    using c is_fin_the_fin [of "js_or (p_inflationRate p) (Fin 0)"] by (simp add: n)
  show "js_or (p_currentSavings p) (Fin 0) = Fin (n_currentSavings n)"
    using c is_fin_the_fin [of "js_or (p_currentSavings p) (Fin 0)"] by (simp add: n)
  show "js_or (p_monthlyContribution p) (Fin 0) = Fin (n_monthlyContribution n)"
    using c is_fin_the_fin [of "js_or (p_monthlyContribution p) (Fin 0)"] by (simp add: n)
  show "js_or (p_annualReturn p) (Fin 0) = Fin (n_annualReturn n)"
    using c is_fin_the_fin [of "js_or (p_annualReturn p) (Fin 0)"] by (simp add: n)
qed

lemma zero_return_goal_normalized:
  "normalizeParsed (parseInputs zero_return_goal) =
     Some \<lparr> baseTarget = 30000, n_years = 1, inflation = 0, n_currentSavings = 10000,
            n_monthlyContribution = 1000, n_annualReturn = 0 \<rparr>"
  by (simp add: zero_return_goal_def parseInputs_def normalizeParsed_def js_or_def js_truthy_def
      number_defs)


lemma months_of_quarter: "months_of (1 / 4) = 3"
  by (simp add: months_of_def)

subsection \<open>Powers of the monthly growth factor\<close>







section \<open>The required contribution\<close>




text \<open>
  In double precision the sign can be lost in two more ways, which the exact formulas do
  not show. When \<open>1 + rm\<close> rounds to \<open>1\<close> the denominator is \<open>0\<close>, and a negative
  rate, however small, gives \<open>- Infinity\<close>; when the numerator and the denominator both
  overflow the quotient is \<open>NaN\<close>.
\<close>

lemma rounded_denominator_negative:
  assumes "0 < needed" and "rm < 0"
  shows "js_div (Fin (needed * rm)) (Fin (1 ^ m - 1)) = NInf"
proof -
  have "needed * rm < 0" using assms by (simp add: mult_pos_neg)
  then show ?thesis by (simp add: js_of_sign_def)
qed

lemma overflowed_quotient: "js_div PInf PInf = NaN" "js_mul (Fin 0) PInf = NaN"
  by (simp_all add: js_sign_def js_of_sign_def)



section \<open>The zero-return branch\<close>

text \<open>
  Claim C3. For every goal whose normalized annual return is \<open>0\<close>, \<open>fvLump\<close> is
  \<open>currentSavings\<close> and \<open>fvSip\<close> is \<open>monthlyContribution * months\<close>, where
  \<open>months = max(1, round(years * 12))\<close>.
\<close>

theorem zero_return_linear:
  assumes "normalizeParsed (parseInputs i) = Some n" and "n_annualReturn n = 0"
  shows "\<exists>res. computeResults i = Some res
           \<and> fvLump res = n_currentSavings n
           \<and> fvSip res = n_monthlyContribution n * real (months_of (n_years n))
           \<and> int (months_of (n_years n)) = max 1 (round (n_years n * 12))"
  using assms
  by (simp add: computeResults_Some fvLump_computeNormalized fvSip_computeNormalized months_of_int)

theorem zero_return_linear_witness:
  "normalizeParsed (parseInputs zero_return_goal) =
     Some \<lparr> baseTarget = 30000, n_years = 1, inflation = 0, n_currentSavings = 10000,
            n_monthlyContribution = 1000, n_annualReturn = 0 \<rparr>
   \<and> map_option fvLump (computeResults zero_return_goal) = Some 10000
   \<and> map_option fvSip (computeResults zero_return_goal) = Some 12000"
proof -
  note n = zero_return_goal_normalized
  from zero_return_linear [OF n] n show ?thesis
    by (auto simp: months_of_def)
qed

section \<open>The health tiers\<close>

lemma tier_of_iff:
  "(tier_of c = VeryWeak \<longleftrightarrow> c < 0.5) \<and>
   (tier_of c = NeedsWork \<longleftrightarrow> 0.5 \<le> c \<and> c < 0.8) \<and>
   (tier_of c = AlmostThere \<longleftrightarrow> 0.8 \<le> c \<and> c < 1.0) \<and>
   (tier_of c = OnTrack \<longleftrightarrow> 1.0 \<le> c \<and> c < 1.3) \<and>
   (tier_of c = Overachiever \<longleftrightarrow> 1.3 \<le> c) \<and>
   tier_of c \<noteq> SetGoalFirst"
  by (auto simp: tier_of_def)

lemma getHealthScore_tier:
  "getHealthScore fv et = (if et \<le> 0 then SetGoalFirst else tier_of (fv / et))"
  by (simp only: getHealthScore_def tier_of_def Let_def)

text \<open>
  Claim C4. \<open>getHealthScore\<close> is a total function of \<open>fvTotal\<close> and
  \<open>effectiveTarget\<close>: for a target of at most \<open>0\<close> it gives the sentinel tier;
  otherwise the tier depends on \<open>fvTotal / effectiveTarget\<close> alone, with the cut points
  \<open>0.5\<close>, \<open>0.8\<close>, \<open>1.0\<close> and \<open>1.3\<close>, and a coverage equal to a cut point falls in
  the higher tier.
\<close>

theorem health_tiers:
  "(et \<le> 0 \<longrightarrow> getHealthScore fv et = SetGoalFirst) \<and>
   (0 < et \<longrightarrow>
      (getHealthScore fv et = VeryWeak \<longleftrightarrow> fv / et < 0.5) \<and>
      (getHealthScore fv et = NeedsWork \<longleftrightarrow> 0.5 \<le> fv / et \<and> fv / et < 0.8) \<and>
      (getHealthScore fv et = AlmostThere \<longleftrightarrow> 0.8 \<le> fv / et \<and> fv / et < 1.0) \<and>
      (getHealthScore fv et = OnTrack \<longleftrightarrow> 1.0 \<le> fv / et \<and> fv / et < 1.3) \<and>
      (getHealthScore fv et = Overachiever \<longleftrightarrow> 1.3 \<le> fv / et) \<and>
      getHealthScore fv et \<noteq> SetGoalFirst)"
proof (cases "et \<le> 0")
  case True
  then show ?thesis by (simp only: getHealthScore_tier) simp
next
  case False
  then have "getHealthScore fv et = tier_of (fv / et)"
    by (simp only: getHealthScore_tier if_False)
  moreover from False have "0 < et" by simp
  ultimately show ?thesis
    using False tier_of_iff [of "fv / et"] by (simp only:) blast
qed

theorem health_tiers_witness:
  "getHealthScore 5 0 = SetGoalFirst \<and> getHealthScore 5 10 = NeedsWork
   \<and> getHealthScore 8 10 = AlmostThere \<and> getHealthScore 10 10 = OnTrack
   \<and> getHealthScore 13 10 = Overachiever \<and> getHealthScore 4 10 = VeryWeak"
  using health_tiers [of 0 5] health_tiers [of 10 5] health_tiers [of 10 8]
    health_tiers [of 10 10] health_tiers [of 10 13] health_tiers [of 10 4]
  by simp

section \<open>The sampled trajectory\<close>

lemma projection_loop_done:
  "months < m \<Longrightarrow> projection_loop r rm c months m v acc = acc"
  by (subst projection_loop.simps) simp

lemma projection_loop_step:
  "m \<le> months \<Longrightarrow>
   projection_loop r rm c months m v acc =
     projection_loop r rm c months (m + 1) (grow r rm c v)
       (if m = 1 \<or> m mod 6 = 0 \<or> m = months
        then acc @ [\<lparr> month = m, yearLabel = year_label m, pvalue = grow r rm c v \<rparr>]
        else acc)"
  by (subst projection_loop.simps) (simp add: grow_def Let_def)

lemma projection_loop_last:
  "m \<le> months \<Longrightarrow>
   projection_loop r rm c months m v acc \<noteq> [] \<and>
   last (projection_loop r rm c months m v acc) =
     \<lparr> month = months, yearLabel = year_label months,
       pvalue = (grow r rm c ^^ (Suc months - m)) v \<rparr>"
proof (induction "months - m" arbitrary: m v acc)
  case 0
  then have "m = months" by simp
  then show ?case
    by (simp add: projection_loop_step projection_loop_done)
next
  case (Suc d)
  then have lt: "m < months" and d: "d = months - (m + 1)" and le: "m + 1 \<le> months" by simp_all
  have s: "Suc months - m = Suc (Suc months - (m + 1))" using lt by simp
  from Suc.hyps(1) [OF d le] lt show ?case
    by (simp only: projection_loop_step [OF less_imp_le [OF lt]] s funpow_Suc_right o_apply)
       simp
qed

lemma projection_loop_append:
  "projection_loop r rm c months m v acc = acc @ projection_loop r rm c months m v []"
proof (induction "Suc months - m" arbitrary: m v acc)
  case 0
  then have "months < m" by simp
  then show ?case by (simp add: projection_loop_done)
next
  case (Suc d)
  then have le: "m \<le> months" and d: "d = Suc months - (m + 1)" by simp_all
  let ?pt = "\<lparr> month = m, yearLabel = year_label m, pvalue = grow r rm c v \<rparr>"
  show ?case
  proof (cases "m = 1 \<or> m mod 6 = 0 \<or> m = months")
    case True
    have "projection_loop r rm c months m v acc =
            projection_loop r rm c months (m + 1) (grow r rm c v) (acc @ [?pt])"
      using True le by (simp add: projection_loop_step)
    also have "\<dots> = (acc @ [?pt]) @ projection_loop r rm c months (m + 1) (grow r rm c v) []"
      by (rule Suc.hyps(1) [OF d])
    also have "\<dots> = acc @ projection_loop r rm c months (m + 1) (grow r rm c v) [?pt]"
      using Suc.hyps(1) [OF d, of "grow r rm c v" "[?pt]"] by simp
    also have "\<dots> = acc @ projection_loop r rm c months m v []"
      using True le by (simp add: projection_loop_step)
    finally show ?thesis .
  next
    case False
    have "projection_loop r rm c months m v acc =
            projection_loop r rm c months (m + 1) (grow r rm c v) acc"
      using False le by (simp add: projection_loop_step)
    also have "\<dots> = acc @ projection_loop r rm c months (m + 1) (grow r rm c v) []"
      by (rule Suc.hyps(1) [OF d])
    also have "\<dots> = acc @ projection_loop r rm c months m v []"
      using False le by (simp add: projection_loop_step)
    finally show ?thesis .
  qed
qed

lemma projection_loop_first:
  assumes "1 \<le> months"
  shows "hd (projection_loop r rm c months 1 v []) =
           \<lparr> month = 1, yearLabel = year_label 1, pvalue = grow r rm c v \<rparr>"
proof -
  let ?pt = "\<lparr> month = 1, yearLabel = year_label 1, pvalue = grow r rm c v \<rparr>"
  have "projection_loop r rm c months 1 v [] =
          projection_loop r rm c months (1 + 1) (grow r rm c v) [?pt]"
    using assms by (simp add: projection_loop_step)
  also have "\<dots> = [?pt] @ projection_loop r rm c months (1 + 1) (grow r rm c v) []"
    by (rule projection_loop_append)
  finally show ?thesis by simp
qed

lemma grow_linear: "(grow 0 rm c ^^ k) v = v + c * real k"
  by (induction k) (simp_all add: grow_def algebra_simps)

lemma grow_compound:
  assumes "r \<noteq> 0" and "rm \<noteq> 0"
  shows "(grow r rm c ^^ k) v = v * (1 + rm) ^ k + c * (((1 + rm) ^ k - 1) / rm)"
proof (induction k)
  case 0
  then show ?case by simp
next
  case (Suc k)
  then show ?case using assms by (simp add: grow_def field_simps)
qed

lemma projection_computeNormalized:
  "projection (computeNormalized n) =
     projection_loop (n_annualReturn n / 100) (n_annualReturn n / 100 / 12)
       (n_monthlyContribution n) (months_of (n_years n)) 1 (n_currentSavings n) []"
  by (simp add: computeNormalized_def Let_def)

lemma final_value_is_total:
  "(grow (n_annualReturn n / 100) (n_annualReturn n / 100 / 12) (n_monthlyContribution n)
      ^^ months_of (n_years n)) (n_currentSavings n) = fvTotal (computeNormalized n)"
proof (cases "n_annualReturn n = 0")
  case True
  then show ?thesis
    by (simp add: grow_linear fvTotal_computeNormalized fvLump_computeNormalized
        fvSip_computeNormalized)
next
  case False
  then have "n_annualReturn n / 100 \<noteq> 0" and "n_annualReturn n / 100 / 12 \<noteq> 0" by simp_all
  from grow_compound [OF this] False show ?thesis
    by (simp add: fvTotal_computeNormalized fvLump_computeNormalized fvSip_computeNormalized)
qed

text \<open>
  Claim C10. For every normalized input, in exact arithmetic, the trajectory is not empty,
  its first point is month \<open>1\<close>, its last point is month \<open>months\<close> (which is at least
  \<open>1\<close>), and the value recorded there is the closed form:
  \<open>currentSavings + monthlyContribution * months\<close> in the zero-return branch, and
  \<open>currentSavings * (1 + rm) ^ months + monthlyContribution * (((1 + rm) ^ months - 1) / rm)\<close>
  in the compound branch. These are \<open>fvLump + fvSip\<close>, which is \<open>fvTotal\<close>.
\<close>

theorem final_point_is_closed_form:
  assumes "normalizeParsed (parseInputs i) = Some n"
  shows "\<exists>res. computeResults i = Some res
           \<and> 1 \<le> months_of (n_years n)
           \<and> projection res \<noteq> []
           \<and> month (hd (projection res)) = 1
           \<and> month (last (projection res)) = months_of (n_years n)
           \<and> pvalue (last (projection res)) =
               (if n_annualReturn n = 0
                then n_currentSavings n
                     + n_monthlyContribution n * real (months_of (n_years n))
                else n_currentSavings n
                       * (1 + n_annualReturn n / 100 / 12) ^ months_of (n_years n)
                     + n_monthlyContribution n
                       * (((1 + n_annualReturn n / 100 / 12) ^ months_of (n_years n) - 1)
                          / (n_annualReturn n / 100 / 12)))
           \<and> fvLump res =
               (if n_annualReturn n = 0 then n_currentSavings n
                else n_currentSavings n
                       * (1 + n_annualReturn n / 100 / 12) ^ months_of (n_years n))
           \<and> fvSip res =
               (if n_annualReturn n = 0
                then n_monthlyContribution n * real (months_of (n_years n))
                else n_monthlyContribution n
                       * (((1 + n_annualReturn n / 100 / 12) ^ months_of (n_years n) - 1)
                          / (n_annualReturn n / 100 / 12)))
           \<and> fvTotal res = fvLump res + fvSip res
           \<and> pvalue (last (projection res)) = fvTotal res"
proof -
  let ?res = "computeNormalized n"
  have m: "1 \<le> months_of (n_years n)" by (rule months_of_pos)
  note l = projection_loop_last [OF m]
  have ne: "projection ?res \<noteq> []"
    using l by (simp add: projection_computeNormalized)
  have first: "month (hd (projection ?res)) = 1"
    unfolding projection_computeNormalized projection_loop_first [OF m] by simp
  have final: "month (last (projection ?res)) = months_of (n_years n)"
    using l by (simp add: projection_computeNormalized)
  have total: "pvalue (last (projection ?res)) = fvTotal ?res"
    using l final_value_is_total [of n] by (simp add: projection_computeNormalized)
  have sum: "fvTotal ?res = fvLump ?res + fvSip ?res"
    by (rule fvTotal_computeNormalized)
  have closed: "pvalue (last (projection ?res)) =
               (if n_annualReturn n = 0
                then n_currentSavings n
                     + n_monthlyContribution n * real (months_of (n_years n))
                else n_currentSavings n
                       * (1 + n_annualReturn n / 100 / 12) ^ months_of (n_years n)
                     + n_monthlyContribution n
                       * (((1 + n_annualReturn n / 100 / 12) ^ months_of (n_years n) - 1)
                          / (n_annualReturn n / 100 / 12)))"
    unfolding total sum fvLump_computeNormalized fvSip_computeNormalized by simp
  have "computeResults i = Some ?res" using assms by (rule computeResults_Some)
  with m ne first final closed total sum
    fvLump_computeNormalized [of n] fvSip_computeNormalized [of n]
  show ?thesis by blast
qed

theorem final_point_is_closed_form_witness:
  "normalizeParsed
     (parseInputs (quarter_goal\<lparr> currentSavings := ''1000'', monthlyContribution := ''100'' \<rparr>)) =
     Some \<lparr> baseTarget = 7000, n_years = 1 / 4, inflation = 0, n_currentSavings = 1000,
            n_monthlyContribution = 100, n_annualReturn = 1200 \<rparr>
   \<and> map_option (\<lambda>res. month (last (projection res)))
       (computeResults (quarter_goal\<lparr> currentSavings := ''1000'', monthlyContribution := ''100'' \<rparr>))
       = Some 3
   \<and> map_option (\<lambda>res. pvalue (last (projection res)))
       (computeResults (quarter_goal\<lparr> currentSavings := ''1000'', monthlyContribution := ''100'' \<rparr>))
       = Some 8700
   \<and> map_option fvLump
       (computeResults (quarter_goal\<lparr> currentSavings := ''1000'', monthlyContribution := ''100'' \<rparr>))
       = Some 8000
   \<and> map_option fvSip
       (computeResults (quarter_goal\<lparr> currentSavings := ''1000'', monthlyContribution := ''100'' \<rparr>))
       = Some 700"
proof -
  have n: "normalizeParsed
     (parseInputs (quarter_goal\<lparr> currentSavings := ''1000'', monthlyContribution := ''100'' \<rparr>)) =
     Some \<lparr> baseTarget = 7000, n_years = 1 / 4, inflation = 0, n_currentSavings = 1000,
            n_monthlyContribution = 100, n_annualReturn = 1200 \<rparr>"
    by (simp add: quarter_goal_def parseInputs_def normalizeParsed_def js_or_def js_truthy_def
        number_defs)
  from final_point_is_closed_form [OF n] n show ?thesis
    by (auto simp: months_of_quarter)
qed

text \<open>The same on the zero-return goal: twelve months, \<open>10000 + 12 * 1000\<close>.\<close>

lemma zero_return_final_point:
  "map_option (\<lambda>res. pvalue (last (projection res))) (computeResults zero_return_goal)
     = Some 22000"
proof -
  let ?n = "\<lparr> baseTarget = 30000, n_years = 1, inflation = 0, n_currentSavings = 10000,
             n_monthlyContribution = 1000, n_annualReturn = 0 \<rparr>"
  have "pvalue (last (projection (computeNormalized ?n))) = fvTotal (computeNormalized ?n)"
    using projection_loop_last [OF months_of_pos] final_value_is_total [of ?n]
    by (simp add: projection_computeNormalized)
  then show ?thesis
    by (simp add: computeResults_Some [OF zero_return_goal_normalized]
        fvTotal_computeNormalized fvLump_computeNormalized fvSip_computeNormalized months_of_def)
qed

section \<open>Monotonicity of the coverage\<close>













section \<open>Average coverage and badge\<close>

lemma coverage_tally:
  "coverageSum (tally t g) = coverageSum t + (if qualifies g then goal_coverage g else 0)"
  "coverageCount (tally t g) = coverageCount t + (if qualifies g then 1 else 0)"
  by (simp_all add: tally_def qualifies_def goal_coverage_def Let_def split: option.splits)

lemma coverage_foldl_tally:
  "coverageSum (foldl tally t gs) = coverageSum t + sum_list (map goal_coverage (filter qualifies gs))
   \<and> coverageCount (foldl tally t gs) = coverageCount t + length (filter qualifies gs)"
  by (induction gs arbitrary: t) (simp_all add: coverage_tally)

lemma coverage_portfolioTotals:
  "coverageSum (portfolioTotals goals) = sum_list (map goal_coverage (filter qualifies goals))"
  "coverageCount (portfolioTotals goals) = length (filter qualifies goals)"
  by (simp_all add: portfolioTotals_def coverage_foldl_tally)

lemma avgCoverage_spec: "avgCoverage goals = spec_avgCoverage goals"
  by (simp add: avgCoverage_def spec_avgCoverage_def coverage_portfolioTotals Let_def)

lemma sum_qualifying_pos:
  "filter qualifies gs \<noteq> [] \<Longrightarrow> 0 < sum_list (map goal_coverage (filter qualifies gs))"
proof (induction gs)
  case Nil
  then show ?case by simp
next
  case (Cons g gs)
  show ?case
  proof (cases "qualifies g")
    case True
    then have g: "0 < goal_coverage g"
      by (simp add: qualifies_def goal_coverage_def split: option.splits)
    show ?thesis
    proof (cases "filter qualifies gs = []")
      case True
      with g \<open>qualifies g\<close> show ?thesis by simp
    next
      case False
      with Cons.IH g \<open>qualifies g\<close> show ?thesis by simp
    qed
  next
    case False
    with Cons show ?thesis by simp
  qed
qed

lemma spec_avgCoverage_pos:
  "filter qualifies goals \<noteq> [] \<Longrightarrow> 0 < spec_avgCoverage goals"
  by (simp add: spec_avgCoverage_def Let_def sum_qualifying_pos)

lemma badgeLabel_pos:
  "0 < avg \<Longrightarrow>
   badgeLabel avg =
     (if avg < 0.7 then HighRisk
      else if avg < 1.0 then BadgeAlmostThere
      else if avg < 1.2 then BadgeOnTrack
      else Overprepared)"
  by (simp add: badgeLabel_def)

text \<open>
  Claim C8. The average coverage computed by the accumulators of \<open>Planner\<close> is the
  mean of the coverage over exactly the goals that have results with a positive coverage;
  when no goal qualifies the badge is "getting started", and otherwise the badge follows
  the average with the tiers \<open>(0, 0.7)\<close>, \<open>[0.7, 1.0)\<close>, \<open>[1.0, 1.2)\<close> and
  \<open>[1.2, \<infinity>)\<close>.
\<close>

theorem portfolio_badge:
  "avgCoverage goals = spec_avgCoverage goals
   \<and> badge (portfolioSummary goals) = spec_badge goals"
proof (cases "filter qualifies goals = []")
  case True
  then show ?thesis
    by (simp add: avgCoverage_spec portfolioSummary_def spec_badge_def spec_avgCoverage_def
        badgeLabel_def)
next
  case False
  from badgeLabel_pos [OF spec_avgCoverage_pos [OF False]] False show ?thesis
    by (simp add: avgCoverage_spec portfolioSummary_def spec_badge_def Let_def)
qed

section \<open>Priority-weighted allocation\<close>

lemma normPriority_clamped: "normPriority g = Fin (clampedPriority g)"
  by (cases "Number_js (priority (inputs g))")
     (auto simp: normPriority_def clampedPriority_def js_or_def js_truthy_def Let_def)

lemma clampedPriority_range: "1 \<le> clampedPriority g \<and> clampedPriority g \<le> 5"
  by (cases "Number_js (priority (inputs g))") (auto simp: clampedPriority_def)

lemma foldl_priority:
  "foldl (\<lambda>sum g. js_add sum (normPriority g)) (Fin a) goals =
     Fin (a + sum_list (map clampedPriority goals))"
  by (induction goals arbitrary: a) (simp_all add: normPriority_clamped add.assoc)

lemma totalPriority_sum: "totalPriority goals = Fin (sum_list (map clampedPriority goals))"
  by (simp add: totalPriority_def foldl_priority)

lemma sum_priority_nonneg: "0 \<le> sum_list (map clampedPriority goals)"
proof (induction goals)
  case Nil
  then show ?case by simp
next
  case (Cons g gs)
  then show ?case using clampedPriority_range [of g] by simp
qed

lemma sum_priority_pos: "goals \<noteq> [] \<Longrightarrow> 0 < sum_list (map clampedPriority goals)"
proof (cases goals)
  case Nil
  assume "goals \<noteq> []"
  with Nil show ?thesis by simp
next
  case (Cons g gs)
  then show ?thesis
    using clampedPriority_range [of g] sum_priority_nonneg [of gs] by simp
qed

lemma normField_not_NaN: "normField text \<noteq> NaN"
  by (simp add: normField_def js_or_def js_truthy_def)

lemma falsy_or_nonpositive:
  "v \<noteq> NaN \<Longrightarrow> (\<not> js_truthy v \<or> js_le v (Fin 0)) \<longleftrightarrow> js_le v (Fin 0)"
  by (cases v) (auto simp: js_truthy_def)

text \<open>
  Claim C9. The allocation is \<open>null\<close> exactly when the monthly income is at most \<open>0\<close>
  (text that is not a number counts as \<open>0\<close>) or there is no goal; otherwise every goal
  is given its clamped priority divided by the sum of the clamped priorities, times
  \<open>0.4\<close> times the income, rounded to the nearest whole unit, and every clamped
  priority lies in \<open>[1, 5]\<close>.
\<close>

theorem allocation_by_priority:
  "recommendedAllocation goals text =
     (if js_le (normField text) (Fin 0) \<or> goals = [] then None
      else Some (map (\<lambda>g.
             \<lparr> alloc_id = goal_id g,
               alloc_name = (if goalName (inputs g) \<noteq> [] then goalName (inputs g)
                             else ''Goal '' @ show_nat (goal_id g)),
               suggestedSip =
                 js_round (js_mul (Fin (clampedPriority g / sum_list (map clampedPriority goals)))
                                  (js_mul (normField text) (Fin 0.4))) \<rparr>) goals))
   \<and> (\<forall>income. normField text = Fin income \<longrightarrow>
         js_round (js_mul (Fin (clampedPriority g / sum_list (map clampedPriority goals)))
                          (js_mul (normField text) (Fin 0.4)))
           = Fin (of_int (round (clampedPriority g / sum_list (map clampedPriority goals)
                                   * (0.4 * income)))))
   \<and> 1 \<le> clampedPriority g \<and> clampedPriority g \<le> 5"
proof (intro conjI allI impI)
  let ?inc = "normField text"
  let ?total = "sum_list (map clampedPriority goals)"
  show "recommendedAllocation goals text =
     (if js_le ?inc (Fin 0) \<or> goals = [] then None
      else Some (map (\<lambda>g.
             \<lparr> alloc_id = goal_id g,
               alloc_name = (if goalName (inputs g) \<noteq> [] then goalName (inputs g)
                             else ''Goal '' @ show_nat (goal_id g)),
               suggestedSip =
                 js_round (js_mul (Fin (clampedPriority g / ?total))
                                  (js_mul ?inc (Fin 0.4))) \<rparr>) goals))"
  proof (cases "js_le ?inc (Fin 0)")
    case True
    then show ?thesis
      by (simp add: recommendedAllocation_def normField_def [symmetric] Let_def)
  next
    case False
    with falsy_or_nonpositive [OF normField_not_NaN, of "text"] have t: "js_truthy ?inc" by simp
    show ?thesis
    proof (cases "goals = []")
      case True
      with t False show ?thesis
        by (simp add: recommendedAllocation_def normField_def [symmetric] Let_def
            totalPriority_def)
    next
      case ne: False
      then have "?total \<noteq> 0" using sum_priority_pos [of goals] by simp
      with t False ne show ?thesis
        by (simp add: recommendedAllocation_def normField_def [symmetric] Let_def
            totalPriority_sum normPriority_clamped)
    qed
  qed
next
  fix income
  assume "normField text = Fin income"
  then show "js_round (js_mul (Fin (clampedPriority g / sum_list (map clampedPriority goals)))
                          (js_mul (normField text) (Fin 0.4)))
           = Fin (of_int (round (clampedPriority g / sum_list (map clampedPriority goals)
                                   * (0.4 * income))))"
    by (simp add: mult.commute)
next
  show "1 \<le> clampedPriority g" "clampedPriority g \<le> 5"
    using clampedPriority_range [of g] by simp_all
qed

lemma normField_samples:
  "normField ''1000'' = Fin 1000" "normField ''abc'' = Fin 0" "normField ''-5'' = Fin (- 5)"
  by (simp_all add: normField_def js_or_def js_truthy_def number_defs)

lemma sample_goals_priority:
  "map clampedPriority sample_goals = [3, 5]"
  by (simp add: sample_goals_def clampedPriority_def zero_return_goal_def quarter_goal_def
      number_defs)

theorem allocation_by_priority_witness:
  "normField ''1000'' = Fin 1000
   \<and> recommendedAllocation sample_goals ''1000'' =
       Some [\<lparr> alloc_id = 1, alloc_name = ''Laptop'', suggestedSip = Fin 150 \<rparr>,
             \<lparr> alloc_id = 2, alloc_name = ''Goal 2'', suggestedSip = Fin 250 \<rparr>]
   \<and> recommendedAllocation sample_goals ''abc'' = None
   \<and> recommendedAllocation sample_goals ''-5'' = None
   \<and> recommendedAllocation [] ''1000'' = None"
proof -
  have p: "clampedPriority (sample_goals ! 0) = 3" "clampedPriority (sample_goals ! 1) = 5"
    using sample_goals_priority by (simp_all add: sample_goals_def)
  have s: "sum_list (map clampedPriority sample_goals) = 8"
    by (simp add: sample_goals_priority)
  have g: "sample_goals \<noteq> []" by (simp add: sample_goals_def)
  from allocation_by_priority [of sample_goals "''1000''" "sample_goals ! 0"]
    allocation_by_priority [of sample_goals "''abc''" "sample_goals ! 0"]
    allocation_by_priority [of sample_goals "''-5''" "sample_goals ! 0"]
    allocation_by_priority [of "[]" "''1000''" "sample_goals ! 0"]
  show ?thesis
    using p s g
    by (simp add: normField_samples)
       (simp add: sample_goals_def zero_return_goal_def quarter_goal_def show_nat.simps
          digit_char_def clampedPriority_def number_defs)
qed

section \<open>Normalization of text\<close>

text \<open>The six locals of \<open>computeResults\<close> are the normalized fields.\<close>

lemma normalized_fields:
  assumes "normalizeParsed (parseInputs i) = Some n"
  shows "normField (targetAmount i) = Fin (baseTarget n)"
    and "normField (years i) = Fin (n_years n)"
    and "normField (inflationRate i) = Fin (inflation n)"
    and "normField (currentSavings i) = Fin (n_currentSavings n)"
    and "normField (monthlyContribution i) = Fin (n_monthlyContribution n)"
    and "normField (annualReturn i) = Fin (n_annualReturn n)"
  using normalizeParsed_SomeD [OF assms] by (simp_all add: normField_def parseInputs_def)

text \<open>
  Claim C6 says that a field whose text fails to parse as a finite number resolves to
  \<open>0\<close>. The text \<open>Infinity\<close> parses to an infinity, which is not a finite number, and
  \<open>Infinity || 0\<close> is that infinity, not \<open>0\<close>.
\<close>

theorem normalization_counterexample:
  "Number_js ''Infinity'' = PInf \<and> \<not> is_fin (Number_js ''Infinity'')
   \<and> normField ''Infinity'' = PInf \<and> normField ''Infinity'' \<noteq> Fin 0"
  by (simp add: normField_def js_or_def js_truthy_def number_defs)

text \<open>
  Claim C6, amended. Normalization is a total function of the text and never raises: a
  field whose text does not parse as a number (\<open>NaN\<close>) resolves to \<open>0\<close>, and so does
  the empty text; text that parses to \<open>Infinity\<close> or \<open>- Infinity\<close> stays that infinity;
  any other text resolves to the number it parses to. The priority falls back to \<open>1\<close>
  and is always clamped into \<open>[1, 5]\<close>.
\<close>

theorem normalization_total:
  "normField txt =
     (case Number_js txt of NaN \<Rightarrow> Fin 0 | PInf \<Rightarrow> PInf | NInf \<Rightarrow> NInf | Fin x \<Rightarrow> Fin x)
   \<and> normField [] = Fin 0
   \<and> normPriority g = Fin (clampedPriority g)
   \<and> 1 \<le> clampedPriority g \<and> clampedPriority g \<le> 5"
proof -
  have "normField txt =
     (case Number_js txt of NaN \<Rightarrow> Fin 0 | PInf \<Rightarrow> PInf | NInf \<Rightarrow> NInf | Fin x \<Rightarrow> Fin x)"
    by (cases "Number_js txt") (auto simp: normField_def js_or_def js_truthy_def)
  moreover have "normField [] = Fin 0"
    by (simp add: normField_def js_or_def js_truthy_def number_defs)
  ultimately show ?thesis
    using normPriority_clamped [of g] clampedPriority_range [of g] by simp
qed

section \<open>What-if scenarios\<close>

lemma normalizeParsed_SomeI:
  assumes "js_or (p_targetAmount p) (Fin 0) = Fin t"
    and "js_or (p_years p) (Fin 0) = Fin y"
    and "js_or (p_inflationRate p) (Fin 0) = Fin i"
    and "js_or (p_currentSavings p) (Fin 0) = Fin c"
    and "js_or (p_monthlyContribution p) (Fin 0) = Fin m"
    and "js_or (p_annualReturn p) (Fin 0) = Fin a"
  shows "normalizeParsed p =
           Some \<lparr> baseTarget = t, n_years = y, inflation = i, n_currentSavings = c,
                  n_monthlyContribution = m, n_annualReturn = a \<rparr>"
  by (simp add: normalizeParsed_def Let_def assms)

lemma js_or_Fin_zero: "js_or (Fin x) (Fin 0) = Fin x"
  by (simp add: js_or_def js_truthy_def)

lemma normalizeParsed_plus2k:
  assumes "normalizeParsed p = Some n"
  shows "normalizeParsed (p\<lparr> p_monthlyContribution :=
                         js_add (js_or (p_monthlyContribution p) (Fin 0)) (Fin 2000) \<rparr>)
           = Some (n\<lparr> n_monthlyContribution := n_monthlyContribution n + 2000 \<rparr>)"
proof -
  note d = normalizeParsed_SomeD [OF assms]
  have "normalizeParsed (p\<lparr> p_monthlyContribution :=
                         js_add (js_or (p_monthlyContribution p) (Fin 0)) (Fin 2000) \<rparr>)
          = Some \<lparr> baseTarget = baseTarget n, n_years = n_years n, inflation = inflation n,
                   n_currentSavings = n_currentSavings n,
                   n_monthlyContribution = n_monthlyContribution n + 2000,
                   n_annualReturn = n_annualReturn n \<rparr>"
    by (rule normalizeParsed_SomeI) (simp_all add: d js_or_Fin_zero)
  then show ?thesis by simp
qed

lemma normalizeParsed_minus2L:
  assumes "normalizeParsed p = Some n"
  shows "normalizeParsed (p\<lparr> p_targetAmount :=
                         js_max (Fin 0) (js_sub (js_or (p_targetAmount p) (Fin 0)) (Fin 200000)) \<rparr>)
           = Some (n\<lparr> baseTarget := max 0 (baseTarget n - 200000) \<rparr>)"
proof -
  note d = normalizeParsed_SomeD [OF assms]
  have "normalizeParsed (p\<lparr> p_targetAmount :=
                         js_max (Fin 0) (js_sub (js_or (p_targetAmount p) (Fin 0)) (Fin 200000)) \<rparr>)
          = Some \<lparr> baseTarget = max 0 (baseTarget n - 200000), n_years = n_years n,
                   inflation = inflation n, n_currentSavings = n_currentSavings n,
                   n_monthlyContribution = n_monthlyContribution n,
                   n_annualReturn = n_annualReturn n \<rparr>"
    by (rule normalizeParsed_SomeI) (simp_all add: d js_or_Fin_zero js_sub_def max_def)
  then show ?thesis by simp
qed

lemma plus2y_value:
  assumes "js_or v (Fin 0) = Fin y"
  shows "js_or (js_or (js_add v (Fin 2)) (Fin 2)) (Fin 0) = Fin (if y = - 2 then 2 else y + 2)"
proof (cases v)
  case (Fin x)
  with assms have "x = y" by (simp add: js_or_def js_truthy_def split: if_splits)
  with Fin show ?thesis by (simp add: js_or_def js_truthy_def)
qed (use assms in \<open>simp_all add: js_or_def js_truthy_def\<close>)

lemma normalizeParsed_plus2y:
  assumes "normalizeParsed p = Some n"
  shows "normalizeParsed (p\<lparr> p_years := js_or (js_add (p_years p) (Fin 2)) (Fin 2) \<rparr>)
           = Some (n\<lparr> n_years := (if n_years n = - 2 then 2 else n_years n + 2) \<rparr>)"
proof -
  note d = normalizeParsed_SomeD [OF assms]
  have "normalizeParsed (p\<lparr> p_years := js_or (js_add (p_years p) (Fin 2)) (Fin 2) \<rparr>)
          = Some \<lparr> baseTarget = baseTarget n,
                   n_years = (if n_years n = - 2 then 2 else n_years n + 2),
                   inflation = inflation n, n_currentSavings = n_currentSavings n,
                   n_monthlyContribution = n_monthlyContribution n,
                   n_annualReturn = n_annualReturn n \<rparr>"
    by (rule normalizeParsed_SomeI) (simp_all add: d plus2y_value [OF d(2)])
  then show ?thesis by simp
qed

text \<open>What the three scenarios compute, for inputs with finite fields.\<close>

lemma scenarioResults_normalized:
  assumes "normalizeParsed (parseInputs (inputs g)) = Some n"
  shows "scenarioResults (Some g) =
           Some \<lparr> scenarioPlus2Years =
                    Some (computeNormalized
                            (n\<lparr> n_years := (if n_years n = - 2 then 2 else n_years n + 2) \<rparr>)),
                  scenarioPlus2kSip =
                    Some (computeNormalized
                            (n\<lparr> n_monthlyContribution := n_monthlyContribution n + 2000 \<rparr>)),
                  scenarioMinus2LTarget =
                    Some (computeNormalized
                            (n\<lparr> baseTarget := max 0 (baseTarget n - 200000) \<rparr>)) \<rparr>"
  by (simp add: scenarioResults_def Let_def computeParsed_def
      normalizeParsed_plus2y [OF assms] normalizeParsed_plus2k [OF assms] normalizeParsed_minus2L [OF assms])

text \<open>The stored results of the active goal play no part in the scenarios.\<close>

lemma scenarioResults_ignores_results:
  "scenarioResults (Some (g\<lparr> results := r \<rparr>)) = scenarioResults (Some g)"
  by (simp add: scenarioResults_def)

lemma negative_years_normalized:
  "normalizeParsed (parseInputs negative_years_inputs) =
     Some \<lparr> baseTarget = 1000, n_years = - 2, inflation = 0, n_currentSavings = 0,
            n_monthlyContribution = 100, n_annualReturn = 0 \<rparr>"
  "normalizeParsed (parseInputs (negative_years_inputs\<lparr> years := ''0'' \<rparr>)) =
     Some \<lparr> baseTarget = 1000, n_years = 0, inflation = 0, n_currentSavings = 0,
            n_monthlyContribution = 100, n_annualReturn = 0 \<rparr>"
  "normalizeParsed (parseInputs (negative_years_inputs\<lparr> years := ''2'' \<rparr>)) =
     Some \<lparr> baseTarget = 1000, n_years = 2, inflation = 0, n_currentSavings = 0,
            n_monthlyContribution = 100, n_annualReturn = 0 \<rparr>"
  by (simp_all add: negative_years_inputs_def parseInputs_def normalizeParsed_def js_or_def
      js_truthy_def number_defs)

text \<open>
  Claim C7 says that the first scenario runs the calculator on the normalized years plus
  \<open>2\<close>. The source takes \<open>Number(years) + 2 || 2\<close>, where the two sibling scenarios
  normalize first and perturb afterwards; for the text \<open>-2\<close> the sum is \<open>0\<close>, which is
  falsy, and the scenario runs with \<open>2\<close> years (\<open>24\<close> months, a contribution value of
  \<open>2400\<close>) instead of \<open>0\<close> years (\<open>1\<close> month, \<open>100\<close>).
\<close>

theorem scenario_years_slip:
  "map_option scenarioPlus2Years
     (scenarioResults (Some \<lparr> goal_id = 1, inputs = negative_years_inputs, results = None \<rparr>))
     = Some (computeResults (negative_years_inputs\<lparr> years := ''2'' \<rparr>))
   \<and> map_option fvSip (computeResults (negative_years_inputs\<lparr> years := ''2'' \<rparr>)) = Some 2400
   \<and> map_option fvSip (computeResults (negative_years_inputs\<lparr> years := ''0'' \<rparr>)) = Some 100"
proof -
  let ?g = "\<lparr> goal_id = 1, inputs = negative_years_inputs, results = None \<rparr>"
  have n: "normalizeParsed (parseInputs (inputs ?g)) =
     Some \<lparr> baseTarget = 1000, n_years = - 2, inflation = 0, n_currentSavings = 0,
            n_monthlyContribution = 100, n_annualReturn = 0 \<rparr>"
    by (simp add: negative_years_normalized)
  have "map_option scenarioPlus2Years (scenarioResults (Some ?g))
          = Some (computeResults (negative_years_inputs\<lparr> years := ''2'' \<rparr>))"
    unfolding scenarioResults_normalized [OF n]
    by (simp add: computeResults_Some [OF negative_years_normalized(3)])
  moreover have "map_option fvSip (computeResults (negative_years_inputs\<lparr> years := ''2'' \<rparr>))
          = Some 2400"
    by (simp add: computeResults_Some [OF negative_years_normalized(3)] fvSip_computeNormalized
        months_of_def)
  moreover have "map_option fvSip (computeResults (negative_years_inputs\<lparr> years := ''0'' \<rparr>))
          = Some 100"
    by (simp add: computeResults_Some [OF negative_years_normalized(2)] fvSip_computeNormalized
        months_of_def)
  ultimately show ?thesis by simp
qed

section \<open>The default goal\<close>

text \<open>
  The goal a new planner starts with runs over \<open>60\<close> months at a monthly rate of
  \<open>0.01\<close> towards a target of \<open>1500000 * 1.05 ^ 5\<close>, and covers less than half of it.
\<close>

lemma initialInputs_normalized:
  "normalizeParsed (parseInputs initialInputs) =
     Some \<lparr> baseTarget = 1500000, n_years = 5, inflation = 5, n_currentSavings = 50000,
            n_monthlyContribution = 10000, n_annualReturn = 12 \<rparr>"
  by (simp add: initialInputs_def parseInputs_def normalizeParsed_def js_or_def js_truthy_def
      number_defs)

lemma initial_months: "months_of 5 = 60"
  by (simp add: months_of_def)

lemma initial_target:
  "map_option effectiveTarget (computeResults initialInputs) = Some (1500000 * (105 / 100) ^ 5)"
  by (simp add: computeResults_Some [OF initialInputs_normalized]
      effectiveTarget_computeNormalized)

lemma initial_health:
  "map_option health (computeResults initialInputs) = Some VeryWeak"
  by (simp add: computeResults_Some [OF initialInputs_normalized] computeNormalized_def Let_def
      initial_months getHealthScore_def power_divide)

end
